theory Spec2Isabelle
  imports Complex_Main "HOL-Library.Sublist"
begin

section \<open>JavaScript values\<close>

text \<open>
  The module \<open>lib/errors.js\<close> receives arbitrary JavaScript values. A number is an IEEE
  double: a finite value, \<open>NaN\<close> or one of the two infinities. The finite values are
  modelled as rationals (every finite double is one; no arithmetic is done on them here,
  they are only compared, and \<open>-0\<close> compares and converts like \<open>0\<close>). Strings are
  sequences of code units, modelled as \<open>string\<close> with a \<open>char\<close> for a code unit: the
  module only compares strings and takes a suffix of one, which does not depend on the
  width of a code unit. Objects that the module only passes around (an \<open>Error\<close> given
  as message, a locator) are opaque references; a function object is identified by its
  name.
\<close>

datatype js_number = Finite rat | NaN | PosInfinity | NegInfinity

datatype js_value =
    Undefined
  | Null
  | Boolean bool
  | Number js_number
  | BigInt int
  | Str string
  | Symbol nat
  | Object nat
  | Function string

text \<open>The thrown value of a failing strict-mode assignment.\<close>

datatype js_error = TypeError

text \<open>An integer as a JavaScript number.\<close>

definition of_integer :: "int \<Rightarrow> js_value" where
  "of_integer i = Number (Finite (of_int i))"

fun typeof :: "js_value \<Rightarrow> string" where
  "typeof Undefined = ''undefined''"
| "typeof Null = ''object''"
| "typeof (Boolean b) = ''boolean''"
| "typeof (Number n) = ''number''"
| "typeof (BigInt i) = ''bigint''"
| "typeof (Str s) = ''string''"
| "typeof (Symbol n) = ''symbol''"
| "typeof (Object r) = ''object''"
| "typeof (Function f) = ''function''"

text \<open>\<open>ToBoolean\<close>, as the operator \<open>||\<close> applies it to its left operand.\<close>

fun ToBoolean :: "js_value \<Rightarrow> bool" where
  "ToBoolean Undefined = False"
| "ToBoolean Null = False"
| "ToBoolean (Boolean b) = b"
| "ToBoolean (Number (Finite x)) = (x \<noteq> 0)"
| "ToBoolean (Number NaN) = False"
| "ToBoolean (Number PosInfinity) = True"
| "ToBoolean (Number NegInfinity) = True"
| "ToBoolean (BigInt i) = (i \<noteq> 0)"
| "ToBoolean (Str s) = (s \<noteq> [])"
| "ToBoolean (Symbol n) = True"
| "ToBoolean (Object r) = True"
| "ToBoolean (Function f) = True"

definition js_or :: "js_value \<Rightarrow> js_value \<Rightarrow> js_value" where
  "js_or a b = (if ToBoolean a then a else b)"

text \<open>The comparisons \<open>n >= c\<close> and \<open>n <= c\<close> of a number with a finite constant.\<close>

fun num_ge :: "js_number \<Rightarrow> rat \<Rightarrow> bool" where
  "num_ge (Finite x) c = (c \<le> x)"
| "num_ge NaN c = False"
| "num_ge PosInfinity c = True"
| "num_ge NegInfinity c = False"

fun num_le :: "js_number \<Rightarrow> rat \<Rightarrow> bool" where
  "num_le (Finite x) c = (x \<le> c)"
| "num_le NaN c = False"
| "num_le PosInfinity c = False"
| "num_le NegInfinity c = True"

text \<open>
  \<open>s.substring(start)\<close>: the start is clamped to \<open>0 .. s.length\<close>, the end is the
  length of the string.
\<close>

definition substring :: "string \<Rightarrow> int \<Rightarrow> string" where
  "substring s start = drop (nat (min (max start 0) (int (length s)))) s"

text \<open>
  \<open>xs.indexOf(v)\<close> on an array of strings: the first index whose element is strictly
  equal to \<open>v\<close>, or \<open>-1\<close>.
\<close>

fun indexOf_from :: "string list \<Rightarrow> js_value \<Rightarrow> int \<Rightarrow> int" where
  "indexOf_from [] v i = - 1"
| "indexOf_from (x # xs) v i = (if Str x = v then i else indexOf_from xs v (i + 1))"

definition indexOf :: "string list \<Rightarrow> js_value \<Rightarrow> int" where
  "indexOf xs v = indexOf_from xs v 0"

text \<open>
  \<open>xs[n]\<close> for a number \<open>n\<close>: the property key is the number converted to a string, so
  the read finds an element only when \<open>n\<close> is a non-negative integer below the length;
  the key of any other number (\<open>"1.5"\<close>, \<open>"NaN"\<close>) is absent from the array and the
  read gives \<open>undefined\<close>. The constructor reads the array only with a value that
  \<open>isValidDomExceptionCode\<close> has accepted, a number; the last equation is never reached
  from it.
\<close>

fun array_get :: "string list \<Rightarrow> js_value \<Rightarrow> js_value" where
  "array_get xs (Number (Finite x)) =
     (if of_int \<lfloor>x\<rfloor> = x \<and> 0 \<le> x \<and> nat \<lfloor>x\<rfloor> < length xs then Str (xs ! nat \<lfloor>x\<rfloor>)
      else Undefined)"
| "array_get xs v = Undefined"

section \<open>The registry of exception names\<close>

text \<open>
  Modelled from the spec: \<open>conventions.freeze\<close> is defined in \<open>lib/conventions.js\<close>,
  which is not among the sources. The registry is "immutable after initialization" and
  exposed as the "ordered KindRegistry listing": freezing returns the table it is given,
  with the same entries in the same order, and only forbids later changes.
\<close>

definition freeze :: "(string \<times> string) list \<Rightarrow> (string \<times> string) list" where
  "freeze object = object"

text \<open>
  \<open>DOMExceptionName\<close> is a frozen object literal whose keys equal their values. It is
  modelled as the list of its entries in insertion order, which is the order
  \<open>Object.keys\<close> returns.
\<close>

definition DOMExceptionName :: "(string \<times> string) list" where
  "DOMExceptionName = freeze
    [(''Error'', ''Error''),
     (''IndexSizeError'', ''IndexSizeError''),
     (''DomstringSizeError'', ''DomstringSizeError''),
     (''HierarchyRequestError'', ''HierarchyRequestError''),
     (''WrongDocumentError'', ''WrongDocumentError''),
     (''InvalidCharacterError'', ''InvalidCharacterError''),
     (''NoDataAllowedError'', ''NoDataAllowedError''),
     (''NoModificationAllowedError'', ''NoModificationAllowedError''),
     (''NotFoundError'', ''NotFoundError''),
     (''NotSupportedError'', ''NotSupportedError''),
     (''InUseAttributeError'', ''InUseAttributeError''),
     (''InvalidStateError'', ''InvalidStateError''),
     (''SyntaxError'', ''SyntaxError''),
     (''InvalidModificationError'', ''InvalidModificationError''),
     (''NamespaceError'', ''NamespaceError''),
     (''InvalidAccessError'', ''InvalidAccessError''),
     (''ValidationError'', ''ValidationError''),
     (''TypeMismatchError'', ''TypeMismatchError''),
     (''SecurityError'', ''SecurityError''),
     (''NetworkError'', ''NetworkError''),
     (''AbortError'', ''AbortError''),
     (''URLMismatchError'', ''URLMismatchError''),
     (''QuotaExceededError'', ''QuotaExceededError''),
     (''TimeoutError'', ''TimeoutError''),
     (''InvalidNodeTypeError'', ''InvalidNodeTypeError''),
     (''DataCloneError'', ''DataCloneError''),
     (''EncodingError'', ''EncodingError''),
     (''NotReadableError'', ''NotReadableError''),
     (''UnknownError'', ''UnknownError''),
     (''ConstraintError'', ''ConstraintError''),
     (''DataError'', ''DataError''),
     (''TransactionInactiveError'', ''TransactionInactiveError''),
     (''ReadOnlyError'', ''ReadOnlyError''),
     (''VersionError'', ''VersionError''),
     (''OperationError'', ''OperationError''),
     (''NotAllowedError'', ''NotAllowedError''),
     (''OptOutError'', ''OptOutError'')]"

text \<open>\<open>Object.keys(DOMExceptionName)\<close>.\<close>

definition DOMExceptionNames :: "string list" where
  "DOMExceptionNames = map fst DOMExceptionName"

text \<open>The property read \<open>DOMExceptionName.Error\<close>.\<close>

definition DOMExceptionName_Error :: string where
  "DOMExceptionName_Error = (case map_of DOMExceptionName ''Error'' of Some v \<Rightarrow> v | None \<Rightarrow> [])"

section \<open>Validation helpers\<close>

text \<open>
  \<open>typeof value === 'number' && value >= 1 && value <= 25\<close>. The comparisons are only
  reached for a number.
\<close>

fun isValidDomExceptionCode :: "js_value \<Rightarrow> bool" where
  "isValidDomExceptionCode (Number n) = (num_ge n 1 \<and> num_le n 25)"
| "isValidDomExceptionCode v = False"

text \<open>
  \<open>typeof value === 'string' && value.substring(value.length - DOMExceptionName.Error.length)
  === DOMExceptionName.Error\<close>. The member reads are only reached for a string.
\<close>

fun endsWithError :: "js_value \<Rightarrow> bool" where
  "endsWithError (Str s) =
     (substring s (int (length s) - int (length DOMExceptionName_Error)) = DOMExceptionName_Error)"
| "endsWithError v = False"

section \<open>Objects and prototypes\<close>

text \<open>
  An instance is an ordinary object: a reference to its prototype and its own properties,
  which are all created by assignment and so are writable data properties. The
  prototypes are the two this module creates and the two of the host they hang from.
\<close>

datatype proto_ref =
  Object_prototype | Error_prototype | DOMException_prototype | ParseError_prototype

datatype getter = Code_getter

datatype property =
    Data js_value bool    \<comment> \<open>the value and the attribute \<open>writable\<close>\<close>
  | Accessor getter      \<comment> \<open>a getter without a setter\<close>

record prototype_object =
  parent :: "proto_ref option"
  props :: "string \<rightharpoonup> property"

record js_object =
  proto :: proto_ref
  own :: "string \<rightharpoonup> js_value"

text \<open>
  \<open>extendError(constructor, writableName)\<close> gives the constructor a fresh prototype that
  inherits from \<open>Error.prototype\<close> and defines \<open>constructor\<close> (not writable: the
  descriptor does not say so) and \<open>name\<close> (the name of the constructor function, writable
  as asked; an omitted \<open>writableName\<close> is \<open>undefined\<close>, which reads as not writable).
  The constructor function is given by its name.
\<close>

definition extendError :: "string \<Rightarrow> bool \<Rightarrow> prototype_object" where
  "extendError constructor writableName =
     \<lparr>parent = Some Error_prototype,
      props = [''constructor'' \<mapsto> Data (Function constructor) False,
               ''name'' \<mapsto> Data (Str constructor) writableName]\<rparr>"

text \<open>
  The prototype objects. \<open>extendError(DOMException, true)\<close> is followed by
  \<open>Object.defineProperties\<close>, which adds the accessor \<open>code\<close>;
  \<open>extendError(ParseError)\<close> leaves \<open>name\<close> read-only. Of the host,
  \<open>Error.prototype\<close> has the writable data properties \<open>constructor\<close>, \<open>name\<close>,
  \<open>message\<close> and \<open>toString\<close>; \<open>Object.prototype\<close> ends the chain, and since it has
  none of the keys this module reads or writes (\<open>name\<close>, \<open>message\<close>, \<open>locator\<close>,
  \<open>code\<close>, \<open>stack\<close>) its table is left empty.
\<close>

fun heap :: "proto_ref \<Rightarrow> prototype_object" where
  "heap Object_prototype = \<lparr>parent = None, props = Map.empty\<rparr>"
| "heap Error_prototype =
     \<lparr>parent = Some Object_prototype,
      props = [''constructor'' \<mapsto> Data (Function ''Error'') True,
               ''name'' \<mapsto> Data (Str ''Error'') True,
               ''message'' \<mapsto> Data (Str []) True,
               ''toString'' \<mapsto> Data (Function ''toString'') True]\<rparr>"
| "heap DOMException_prototype =
     (let p = extendError ''DOMException'' True
      in p\<lparr>props := (props p)(''code'' \<mapsto> Accessor Code_getter)\<rparr>)"
| "heap ParseError_prototype = extendError ''ParseError'' False"

text \<open>The prototype chain of a prototype, itself first. It ends at \<open>Object.prototype\<close>.\<close>

fun rank :: "proto_ref \<Rightarrow> nat" where
  "rank Object_prototype = 0"
| "rank Error_prototype = 1"
| "rank DOMException_prototype = 2"
| "rank ParseError_prototype = 2"

function proto_chain :: "proto_ref \<Rightarrow> proto_ref list" where
  "proto_chain r = r # (case parent (heap r) of None \<Rightarrow> [] | Some r' \<Rightarrow> proto_chain r')"
  by pat_completeness auto
termination
proof (relation "measure rank")
  show "wf (measure rank)" by simp
next
  fix r r'
  assume "parent (heap r) = Some r'"
  then show "(r', r) \<in> measure rank"
    by (cases r) (auto simp: extendError_def Let_def)
qed

declare proto_chain.simps [simp del]

text \<open>The first property named \<open>k\<close> along a chain of prototypes.\<close>

fun lookup_protos :: "proto_ref list \<Rightarrow> string \<Rightarrow> property option" where
  "lookup_protos [] k = None"
| "lookup_protos (r # rs) k =
     (case props (heap r) k of Some p \<Rightarrow> Some p | None \<Rightarrow> lookup_protos rs k)"

text \<open>
  The property an object has under a key: its own (a writable data property), or else the
  one it inherits.
\<close>

definition GetProperty :: "js_object \<Rightarrow> string \<Rightarrow> property option" where
  "GetProperty obj k =
     (case own obj k of
        Some v \<Rightarrow> Some (Data v True)
      | None \<Rightarrow> lookup_protos (proto_chain (proto obj)) k)"

text \<open>
  The assignment \<open>obj.k = v\<close> in strict mode (the file starts with \<open>'use strict'\<close>): it
  creates or updates the own property, unless the property found is read-only or an
  accessor without a setter, where it throws a \<open>TypeError\<close>.
\<close>

definition Put :: "js_object \<Rightarrow> string \<Rightarrow> js_value \<Rightarrow> js_error + js_object" where
  "Put obj k v =
     (case GetProperty obj k of
        None \<Rightarrow> Inr (obj\<lparr>own := (own obj)(k \<mapsto> v)\<rparr>)
      | Some (Data old writable) \<Rightarrow>
          if writable then Inr (obj\<lparr>own := (own obj)(k \<mapsto> v)\<rparr>) else Inl TypeError
      | Some (Accessor g) \<Rightarrow> Inl TypeError)"

text \<open>Sequencing of steps that may throw.\<close>

definition and_then :: "js_error + 'a \<Rightarrow> ('a \<Rightarrow> js_error + 'b) \<Rightarrow> js_error + 'b" where
  "and_then r f = (case r of Inl e \<Rightarrow> Inl e | Inr x \<Rightarrow> f x)"

text \<open>
  The read of a data property. The getter of \<open>code\<close> reads \<open>this.name\<close> with it: no
  prototype defines \<open>name\<close> as an accessor (lemma \<open>Get_name\<close> below), so this is the
  full read for that key.
\<close>

definition Get_data :: "js_object \<Rightarrow> string \<Rightarrow> js_value" where
  "Get_data obj k =
     (case GetProperty obj k of Some (Data v writable) \<Rightarrow> v | _ \<Rightarrow> Undefined)"

section \<open>The exception of the DOM\<close>

text \<open>
  \<open>Error.captureStackTrace\<close> exists on some hosts only. Where it does, the call gives
  \<open>this\<close> an own property \<open>stack\<close>; the host is the optional trace it would store.
\<close>

definition captureStackTrace :: "js_value option \<Rightarrow> js_object \<Rightarrow> js_object" where
  "captureStackTrace trace this =
     (case trace of None \<Rightarrow> this | Some t \<Rightarrow> this\<lparr>own := (own this)(''stack'' \<mapsto> t)\<rparr>)"

text \<open>
  \<open>new DOMException(messageOrCode, nameOrMessage)\<close>: \<open>this\<close> starts as an empty object
  whose prototype is \<open>DOMException.prototype\<close>; an omitted argument is \<open>undefined\<close>.
\<close>

definition DOMException :: "js_value option \<Rightarrow> js_value \<Rightarrow> js_value \<Rightarrow> js_error + js_object" where
  "DOMException trace messageOrCode nameOrMessage =
     (let this = \<lparr>proto = DOMException_prototype, own = Map.empty\<rparr> in
      and_then
        (if isValidDomExceptionCode messageOrCode
         then and_then (Put this ''name'' (array_get DOMExceptionNames messageOrCode))
                (\<lambda>this. Put this ''message'' (js_or nameOrMessage (Str [])))
         else and_then (Put this ''message'' messageOrCode)
                (\<lambda>this. Put this ''name''
                   (if endsWithError nameOrMessage then nameOrMessage
                    else Str DOMExceptionName_Error)))
        (\<lambda>this. Inr (captureStackTrace trace this)))"

text \<open>The getter of \<open>code\<close> on \<open>DOMException.prototype\<close>.\<close>

definition DOMException_code :: "js_object \<Rightarrow> js_value" where
  "DOMException_code this =
     (let code = of_integer (indexOf DOMExceptionNames (Get_data this ''name''))
      in if isValidDomExceptionCode code then code else of_integer 0)"

fun call_getter :: "getter \<Rightarrow> js_object \<Rightarrow> js_value" where
  "call_getter Code_getter this = DOMException_code this"

text \<open>The read \<open>obj.k\<close>.\<close>

definition Get :: "js_object \<Rightarrow> string \<Rightarrow> js_value" where
  "Get obj k =
     (case GetProperty obj k of
        None \<Rightarrow> Undefined
      | Some (Data v writable) \<Rightarrow> v
      | Some (Accessor g) \<Rightarrow> call_getter g obj)"

text \<open>
  \<open>obj instanceof C\<close>, with \<open>C\<close> given by its property \<open>prototype\<close>: that prototype is
  on the chain of \<open>obj\<close>.
\<close>

definition instanceof :: "js_object \<Rightarrow> proto_ref \<Rightarrow> bool" where
  "instanceof obj c = (c \<in> set (proto_chain (proto obj)))"

text \<open>The read of a property of a constructed value; a thrown error is passed on.\<close>

definition prop_of :: "js_error + js_object \<Rightarrow> string \<Rightarrow> js_error + js_value" where
  "prop_of r k = and_then r (\<lambda>obj. Inr (Get obj k))"

section \<open>The legacy codes\<close>

definition ExceptionCode :: "(string \<times> int) list" where
  "ExceptionCode =
    [(''INDEX_SIZE_ERR'', 1),
     (''DOMSTRING_SIZE_ERR'', 2),
     (''HIERARCHY_REQUEST_ERR'', 3),
     (''WRONG_DOCUMENT_ERR'', 4),
     (''INVALID_CHARACTER_ERR'', 5),
     (''NO_DATA_ALLOWED_ERR'', 6),
     (''NO_MODIFICATION_ALLOWED_ERR'', 7),
     (''NOT_FOUND_ERR'', 8),
     (''NOT_SUPPORTED_ERR'', 9),
     (''INUSE_ATTRIBUTE_ERR'', 10),
     (''INVALID_STATE_ERR'', 11),
     (''SYNTAX_ERR'', 12),
     (''INVALID_MODIFICATION_ERR'', 13),
     (''NAMESPACE_ERR'', 14),
     (''INVALID_ACCESS_ERR'', 15),
     (''VALIDATION_ERR'', 16),
     (''TYPE_MISMATCH_ERR'', 17),
     (''SECURITY_ERR'', 18),
     (''NETWORK_ERR'', 19),
     (''ABORT_ERR'', 20),
     (''URL_MISMATCH_ERR'', 21),
     (''QUOTA_EXCEEDED_ERR'', 22),
     (''TIMEOUT_ERR'', 23),
     (''INVALID_NODE_TYPE_ERR'', 24),
     (''DATA_CLONE_ERR'', 25)]"

text \<open>The property read \<open>ExceptionCode.K\<close>.\<close>

definition ExceptionCode_get :: "string \<Rightarrow> js_value" where
  "ExceptionCode_get k =
     (case map_of ExceptionCode k of Some n \<Rightarrow> of_integer n | None \<Rightarrow> Undefined)"

text \<open>The assignments \<open>DOMException.K = ExceptionCode.K\<close>, in order.\<close>

definition DOMException_statics :: "(string \<times> js_value) list" where
  "DOMException_statics =
    [(''INDEX_SIZE_ERR'', ExceptionCode_get ''INDEX_SIZE_ERR''),
     (''DOMSTRING_SIZE_ERR'', ExceptionCode_get ''DOMSTRING_SIZE_ERR''),
     (''HIERARCHY_REQUEST_ERR'', ExceptionCode_get ''HIERARCHY_REQUEST_ERR''),
     (''WRONG_DOCUMENT_ERR'', ExceptionCode_get ''WRONG_DOCUMENT_ERR''),
     (''INVALID_CHARACTER_ERR'', ExceptionCode_get ''INVALID_CHARACTER_ERR''),
     (''NO_DATA_ALLOWED_ERR'', ExceptionCode_get ''NO_DATA_ALLOWED_ERR''),
     (''NO_MODIFICATION_ALLOWED_ERR'', ExceptionCode_get ''NO_MODIFICATION_ALLOWED_ERR''),
     (''NOT_FOUND_ERR'', ExceptionCode_get ''NOT_FOUND_ERR''),
     (''NOT_SUPPORTED_ERR'', ExceptionCode_get ''NOT_SUPPORTED_ERR''),
     (''INUSE_ATTRIBUTE_ERR'', ExceptionCode_get ''INUSE_ATTRIBUTE_ERR''),
     (''INVALID_STATE_ERR'', ExceptionCode_get ''INVALID_STATE_ERR''),
     (''SYNTAX_ERR'', ExceptionCode_get ''SYNTAX_ERR''),
     (''INVALID_MODIFICATION_ERR'', ExceptionCode_get ''INVALID_MODIFICATION_ERR''),
     (''NAMESPACE_ERR'', ExceptionCode_get ''NAMESPACE_ERR''),
     (''INVALID_ACCESS_ERR'', ExceptionCode_get ''INVALID_ACCESS_ERR''),
     (''VALIDATION_ERR'', ExceptionCode_get ''VALIDATION_ERR''),
     (''TYPE_MISMATCH_ERR'', ExceptionCode_get ''TYPE_MISMATCH_ERR''),
     (''SECURITY_ERR'', ExceptionCode_get ''SECURITY_ERR''),
     (''NETWORK_ERR'', ExceptionCode_get ''NETWORK_ERR''),
     (''ABORT_ERR'', ExceptionCode_get ''ABORT_ERR''),
     (''URL_MISMATCH_ERR'', ExceptionCode_get ''URL_MISMATCH_ERR''),
     (''QUOTA_EXCEEDED_ERR'', ExceptionCode_get ''QUOTA_EXCEEDED_ERR''),
     (''TIMEOUT_ERR'', ExceptionCode_get ''TIMEOUT_ERR''),
     (''INVALID_NODE_TYPE_ERR'', ExceptionCode_get ''INVALID_NODE_TYPE_ERR''),
     (''DATA_CLONE_ERR'', ExceptionCode_get ''DATA_CLONE_ERR'')]"

section \<open>The error of the parser\<close>

text \<open>\<open>new ParseError(message, locator)\<close>.\<close>

definition ParseError :: "js_value option \<Rightarrow> js_value \<Rightarrow> js_value \<Rightarrow> js_error + js_object" where
  "ParseError trace message locator =
     (let this = \<lparr>proto = ParseError_prototype, own = Map.empty\<rparr> in
      and_then (Put this ''message'' message)
        (\<lambda>this. and_then (Put this ''locator'' locator)
           (\<lambda>this. Inr (captureStackTrace trace this))))"

section \<open>The kind each legacy constant stands for\<close>

text \<open>
  This table is not part of the module; it only serves to state which kind a legacy
  constant corresponds to: the constant \<open>X_Y_ERR\<close> stands for the kind \<open>XYError\<close>.
\<close>

definition corresponding_kind :: "(string \<times> string) list" where
  "corresponding_kind =
    [(''INDEX_SIZE_ERR'', ''IndexSizeError''),
     (''DOMSTRING_SIZE_ERR'', ''DomstringSizeError''),
     (''HIERARCHY_REQUEST_ERR'', ''HierarchyRequestError''),
     (''WRONG_DOCUMENT_ERR'', ''WrongDocumentError''),
     (''INVALID_CHARACTER_ERR'', ''InvalidCharacterError''),
     (''NO_DATA_ALLOWED_ERR'', ''NoDataAllowedError''),
     (''NO_MODIFICATION_ALLOWED_ERR'', ''NoModificationAllowedError''),
     (''NOT_FOUND_ERR'', ''NotFoundError''),
     (''NOT_SUPPORTED_ERR'', ''NotSupportedError''),
     (''INUSE_ATTRIBUTE_ERR'', ''InUseAttributeError''),
     (''INVALID_STATE_ERR'', ''InvalidStateError''),
     (''SYNTAX_ERR'', ''SyntaxError''),
     (''INVALID_MODIFICATION_ERR'', ''InvalidModificationError''),
     (''NAMESPACE_ERR'', ''NamespaceError''),
     (''INVALID_ACCESS_ERR'', ''InvalidAccessError''),
     (''VALIDATION_ERR'', ''ValidationError''),
     (''TYPE_MISMATCH_ERR'', ''TypeMismatchError''),
     (''SECURITY_ERR'', ''SecurityError''),
     (''NETWORK_ERR'', ''NetworkError''),
     (''ABORT_ERR'', ''AbortError''),
     (''URL_MISMATCH_ERR'', ''URLMismatchError''),
     (''QUOTA_EXCEEDED_ERR'', ''QuotaExceededError''),
     (''TIMEOUT_ERR'', ''TimeoutError''),
     (''INVALID_NODE_TYPE_ERR'', ''InvalidNodeTypeError''),
     (''DATA_CLONE_ERR'', ''DataCloneError'')]"

section \<open>Facts about the host operations and the registry\<close>


lemma indexOf_from_nth:
  "distinct xs \<Longrightarrow> n < length xs \<Longrightarrow> indexOf_from xs (Str (xs ! n)) i = i + int n"
proof (induction xs arbitrary: n i)
  case Nil
  then show ?case by simp
next
  case (Cons x xs)
  show ?case
  proof (cases n)
    case 0
    then show ?thesis by simp
  next
    case (Suc m)
    with Cons.prems have "xs ! m \<in> set xs" and "x \<notin> set xs" and "m < length xs" and "distinct xs"
      by auto
    then have "x \<noteq> xs ! m" by auto
    with Suc Cons.IH [OF \<open>distinct xs\<close> \<open>m < length xs\<close>, of "i + 1"] show ?thesis by simp
  qed
qed

lemma indexOf_nth:
  "distinct xs \<Longrightarrow> n < length xs \<Longrightarrow> indexOf xs (Str (xs ! n)) = int n"
  by (simp add: indexOf_def indexOf_from_nth)

lemma indexOf_from_found:
  "indexOf_from xs v i \<noteq> - 1 \<Longrightarrow> 0 \<le> i \<Longrightarrow>
     i \<le> indexOf_from xs v i \<and> indexOf_from xs v i < i + int (length xs) \<and>
     v = Str (xs ! nat (indexOf_from xs v i - i))"
proof (induction xs arbitrary: i)
  case Nil
  then show ?case by simp
next
  case (Cons x xs)
  show ?case
  proof (cases "Str x = v")
    case True
    then show ?thesis by auto
  next
    case False
    with Cons.prems have ne: "indexOf_from xs v (i + 1) \<noteq> - 1" by simp
    from Cons.prems have "0 \<le> i + 1" by simp
    from Cons.IH [OF ne this]
    have ih: "i + 1 \<le> indexOf_from xs v (i + 1)"
      "indexOf_from xs v (i + 1) < i + 1 + int (length xs)"
      "v = Str (xs ! nat (indexOf_from xs v (i + 1) - (i + 1)))"
      by simp_all
    from ih(1) have "nat (indexOf_from xs v (i + 1) - i) = Suc (nat (indexOf_from xs v (i + 1) - (i + 1)))"
      by simp
    with ih False show ?thesis by simp

  qed
qed

lemma indexOf_from_absent:
  "0 \<le> i \<Longrightarrow> (indexOf_from xs v i = - 1) = (v \<notin> Str ` set xs)"
proof (induction xs arbitrary: i)
  case Nil
  then show ?case by simp
next
  case (Cons x xs)
  then have "0 \<le> i + 1" by simp
  from Cons.IH [OF this] Cons.prems show ?case by auto
qed

lemma indexOf_absent: "(indexOf xs v = - 1) = (v \<notin> Str ` set xs)"
  by (simp add: indexOf_def indexOf_from_absent)

lemma indexOf_found:
  assumes "indexOf xs v \<noteq> - 1"
  shows "0 \<le> indexOf xs v" and "indexOf xs v < int (length xs)"
    and "v = Str (xs ! nat (indexOf xs v))"
  using indexOf_from_found [of xs v 0] assms by (simp_all add: indexOf_def)

lemma length_DOMExceptionNames: "length DOMExceptionNames = 37"
  by (simp add: DOMExceptionNames_def DOMExceptionName_def freeze_def)

lemma distinct_DOMExceptionNames: "distinct DOMExceptionNames"
  by (simp add: DOMExceptionNames_def DOMExceptionName_def freeze_def)

lemma DOMExceptionName_Error: "DOMExceptionName_Error = ''Error''"
  by (simp add: DOMExceptionName_Error_def DOMExceptionName_def freeze_def)

lemma endsWithError_suffix: "endsWithError (Str s) = suffix ''Error'' s"
proof (cases "5 \<le> length s")
  case True
  then have "substring s (int (length s) - 5) = drop (length s - 5) s"
    by (simp add: substring_def nat_diff_distrib' min_def max_def)
  moreover have "(drop (length s - 5) s = ''Error'') = suffix ''Error'' s"
  proof
    assume "drop (length s - 5) s = ''Error''"
    then have "s = take (length s - 5) s @ ''Error''"
      by (metis append_take_drop_id)
    then show "suffix ''Error'' s" by (rule suffixI)
  next
    assume "suffix ''Error'' s"
    then obtain zs where "s = zs @ ''Error''" by (auto simp: suffix_def)
    then show "drop (length s - 5) s = ''Error''" by simp
  qed
  ultimately show ?thesis by (simp add: DOMExceptionName_Error)
next
  case False
  then have "substring s (int (length s) - 5) = s"
    by (simp add: substring_def min_def max_def)
  moreover from False have "s \<noteq> ''Error''" by auto
  moreover from False have "\<not> suffix ''Error'' s" by (auto dest: suffix_length_le)
  ultimately show ?thesis by (simp add: DOMExceptionName_Error)
qed

lemma isValid_of_integer: "isValidDomExceptionCode (of_integer n) = (1 \<le> n \<and> n \<le> 25)"
  by (simp add: of_integer_def) 

lemma array_get_of_integer:
  "0 \<le> n \<Longrightarrow> nat n < length xs \<Longrightarrow> array_get xs (of_integer n) = Str (xs ! nat n)"
  by (simp add: of_integer_def)


lemma chain_DOMException:
  "proto_chain DOMException_prototype = [DOMException_prototype, Error_prototype, Object_prototype]"
  by (simp add: proto_chain.simps extendError_def)

lemma chain_ParseError:
  "proto_chain ParseError_prototype = [ParseError_prototype, Error_prototype, Object_prototype]"
  by (simp add: proto_chain.simps extendError_def)

lemma Put_name_DOMException:
  "Put \<lparr>proto = DOMException_prototype, own = m\<rparr> ''name'' v =
     Inr \<lparr>proto = DOMException_prototype, own = m(''name'' \<mapsto> v)\<rparr>"
  by (simp add: Put_def GetProperty_def chain_DOMException extendError_def split: option.splits)

lemma Put_message:
  "r = DOMException_prototype \<or> r = ParseError_prototype \<Longrightarrow>
     Put \<lparr>proto = r, own = m\<rparr> ''message'' v = Inr \<lparr>proto = r, own = m(''message'' \<mapsto> v)\<rparr>"
  by (auto simp: Put_def GetProperty_def chain_DOMException chain_ParseError extendError_def
      split: option.splits)

lemma Put_locator_ParseError:
  "Put \<lparr>proto = ParseError_prototype, own = m\<rparr> ''locator'' v =
     Inr \<lparr>proto = ParseError_prototype, own = m(''locator'' \<mapsto> v)\<rparr>"
  by (simp add: Put_def GetProperty_def chain_ParseError extendError_def split: option.splits)

lemma DOMException_legacy:
  "isValidDomExceptionCode p \<Longrightarrow>
     DOMException trace p s =
       Inr (captureStackTrace trace
         \<lparr>proto = DOMException_prototype,
          own = [''name'' \<mapsto> array_get DOMExceptionNames p, ''message'' \<mapsto> js_or s (Str [])]\<rparr>)"
  by (simp add: DOMException_def and_then_def Put_name_DOMException Put_message)

lemma DOMException_named:
  "\<not> isValidDomExceptionCode p \<Longrightarrow>
     DOMException trace p s =
       Inr (captureStackTrace trace
         \<lparr>proto = DOMException_prototype,
          own = [''message'' \<mapsto> p,
                 ''name'' \<mapsto> (if endsWithError s then s else Str ''Error'')]\<rparr>)"
  by (simp add: DOMException_def and_then_def Put_name_DOMException Put_message
      DOMExceptionName_Error)

lemma ParseError_result:
  "ParseError trace m l =
     Inr (captureStackTrace trace
       \<lparr>proto = ParseError_prototype, own = [''message'' \<mapsto> m, ''locator'' \<mapsto> l]\<rparr>)"
  by (simp add: ParseError_def and_then_def Put_locator_ParseError Put_message)

lemma own_captureStackTrace:
  "k \<noteq> ''stack'' \<Longrightarrow> own (captureStackTrace trace obj) k = own obj k"
  by (simp add: captureStackTrace_def split: option.splits)

lemma proto_captureStackTrace: "proto (captureStackTrace trace obj) = proto obj"
  by (simp add: captureStackTrace_def split: option.splits)

lemma Get_own: "own obj k = Some v \<Longrightarrow> Get obj k = v"
  by (simp add: Get_def GetProperty_def)

lemma Get_data_own: "own obj k = Some v \<Longrightarrow> Get_data obj k = v"
  by (simp add: Get_data_def GetProperty_def)

lemma lookup_name_not_accessor: "lookup_protos (proto_chain r) ''name'' \<noteq> Some (Accessor g)"
  by (cases r) (simp_all add: proto_chain.simps extendError_def)

lemma Get_name: "Get obj ''name'' = Get_data obj ''name''"
  using lookup_name_not_accessor [of "proto obj"]
  by (auto simp: Get_def Get_data_def GetProperty_def split: option.splits property.splits)

lemma Get_code_DOMException:
  "proto obj = DOMException_prototype \<Longrightarrow> own obj ''code'' = None \<Longrightarrow>
     Get obj ''code'' = DOMException_code obj"
  by (simp add: Get_def GetProperty_def chain_DOMException extendError_def)

lemma Get_code_ParseError:
  "proto obj = ParseError_prototype \<Longrightarrow> own obj ''code'' = None \<Longrightarrow>
     Get obj ''code'' = Undefined"
  by (simp add: Get_def GetProperty_def chain_ParseError extendError_def)

lemma prop_name_legacy:
  "isValidDomExceptionCode p \<Longrightarrow>
     prop_of (DOMException trace p s) ''name'' = Inr (array_get DOMExceptionNames p)"
  by (simp add: DOMException_legacy prop_of_def and_then_def Get_own own_captureStackTrace)

lemma prop_message_legacy:
  "isValidDomExceptionCode p \<Longrightarrow>
     prop_of (DOMException trace p s) ''message'' = Inr (js_or s (Str []))"
  by (simp add: DOMException_legacy prop_of_def and_then_def Get_own own_captureStackTrace)

lemma prop_name_named:
  "\<not> isValidDomExceptionCode p \<Longrightarrow>
     prop_of (DOMException trace p s) ''name'' =
       Inr (if endsWithError s then s else Str ''Error'')"
  by (simp add: DOMException_named prop_of_def and_then_def Get_own own_captureStackTrace)

lemma prop_message_named:
  "\<not> isValidDomExceptionCode p \<Longrightarrow> prop_of (DOMException trace p s) ''message'' = Inr p"
  by (simp add: DOMException_named prop_of_def and_then_def Get_own own_captureStackTrace)

lemma DOMException_total:
  "\<exists>e. DOMException trace p s = Inr e \<and> proto e = DOMException_prototype \<and>
         own e ''code'' = None \<and> (\<exists>v. own e ''name'' = Some v)"
  by (cases "isValidDomExceptionCode p")
    (simp_all add: DOMException_legacy DOMException_named own_captureStackTrace
      proto_captureStackTrace)

lemma prop_code:
  "prop_of (DOMException trace p s) ''name'' = Inr v \<Longrightarrow>
     prop_of (DOMException trace p s) ''code'' =
       Inr (let code = of_integer (indexOf DOMExceptionNames v)
            in if isValidDomExceptionCode code then code else of_integer 0)"
proof -
  assume a: "prop_of (DOMException trace p s) ''name'' = Inr v"
  obtain e w where e: "DOMException trace p s = Inr e" "proto e = DOMException_prototype"
    "own e ''code'' = None" "own e ''name'' = Some w"
    using DOMException_total by blast
  with a have "w = v" by (simp add: prop_of_def and_then_def Get_own)
  with e show ?thesis
    by (simp add: prop_of_def and_then_def Get_code_DOMException DOMException_code_def
        Get_data_own)
qed


lemma isValid_iff:
  "isValidDomExceptionCode p = (\<exists>x. p = Number (Finite x) \<and> 1 \<le> x \<and> x \<le> 25)"
proof (cases p)
  case (Number n)
  then show ?thesis by (cases n) auto
qed simp_all

lemma ToBoolean_iff:
  "ToBoolean s =
     (s \<notin> {Undefined, Null, Boolean False, Number (Finite 0), Number NaN, BigInt 0, Str []})"
proof (cases s)
  case (Number n)
  then show ?thesis by (cases n) auto
qed auto

lemma code_of_name:
  fixes v :: js_value
  defines "i \<equiv> indexOf DOMExceptionNames v"
  defines "c \<equiv> (if 1 \<le> i \<and> i \<le> 25 then i else 0)"
  shows "0 \<le> c" and "c \<le> 25" 
    and "c \<noteq> 0 \<Longrightarrow> v = Str (DOMExceptionNames ! nat c)"
    and "c = 0 \<Longrightarrow> 1 \<le> j \<Longrightarrow> j \<le> 25 \<Longrightarrow> v \<noteq> Str (DOMExceptionNames ! j)"
proof -
  show "0 \<le> c" and "c \<le> 25" by (simp_all add: c_def)
  show "v = Str (DOMExceptionNames ! nat c)" if "c \<noteq> 0"
  proof -
    from that have "c = i" and "i \<noteq> - 1" by (auto simp: c_def split: if_splits)
    with indexOf_found(3) [of DOMExceptionNames v] show ?thesis by (simp add: i_def)
  qed
  show "v \<noteq> Str (DOMExceptionNames ! j)" if "c = 0" and "1 \<le> j" and "j \<le> 25"
  proof
    assume "v = Str (DOMExceptionNames ! j)"
    with that have "i = int j"
      by (simp add: i_def indexOf_nth distinct_DOMExceptionNames length_DOMExceptionNames)
    with that show False by (simp add: c_def)
  qed
qed

lemma prop_code_int:
  "prop_of (DOMException trace p s) ''name'' = Inr v \<Longrightarrow>
     prop_of (DOMException trace p s) ''code'' =
       Inr (of_integer (if 1 \<le> indexOf DOMExceptionNames v \<and> indexOf DOMExceptionNames v \<le> 25
                        then indexOf DOMExceptionNames v else 0))"
  by (simp add: prop_code Let_def isValid_of_integer)

lemma registry_names_end_with_Error: "k \<in> set DOMExceptionNames \<Longrightarrow> suffix ''Error'' k"
  by (auto simp: DOMExceptionNames_def DOMExceptionName_def freeze_def suffix_def)

lemma GetProperty_ParseError_no_getter:
  "proto obj = ParseError_prototype \<Longrightarrow> GetProperty obj k \<noteq> Some (Accessor g)"
  by (simp add: GetProperty_def chain_ParseError extendError_def split: option.splits)

section \<open>The claims\<close>

text \<open>
  Claim C1. For every integer \<open>n\<close> from 1 to 25 and every string \<open>m\<close>,
  \<open>new DOMException(n, m)\<close> takes the branch of the legacy codes and gives an exception
  whose \<open>name\<close> is the registry name at position \<open>n\<close>, whose \<open>message\<close> is
  \<open>m\<close> and whose \<open>code\<close> reads as \<open>n\<close>.
\<close>

theorem legacy_code_construction:
  assumes "1 \<le> n" and "n \<le> 25"
  shows "isValidDomExceptionCode (of_integer n) \<and>
         prop_of (DOMException trace (of_integer n) (Str m)) ''name'' =
           Inr (Str (DOMExceptionNames ! nat n)) \<and>
         prop_of (DOMException trace (of_integer n) (Str m)) ''message'' = Inr (Str m) \<and>
         prop_of (DOMException trace (of_integer n) (Str m)) ''code'' = Inr (of_integer n)"
proof -
  from assms have valid: "isValidDomExceptionCode (of_integer n)"
    by (simp add: isValid_of_integer)
  from assms have "array_get DOMExceptionNames (of_integer n) = Str (DOMExceptionNames ! nat n)"
    by (simp add: array_get_of_integer length_DOMExceptionNames)
  with valid have name: "prop_of (DOMException trace (of_integer n) (Str m)) ''name'' =
      Inr (Str (DOMExceptionNames ! nat n))"
    by (simp add: prop_name_legacy)
  from valid have message: "prop_of (DOMException trace (of_integer n) (Str m)) ''message'' = Inr (Str m)"
    by (simp add: prop_message_legacy js_or_def)
  from assms have "indexOf DOMExceptionNames (Str (DOMExceptionNames ! nat n)) = n"
    by (simp add: indexOf_nth distinct_DOMExceptionNames length_DOMExceptionNames)
  with assms prop_code_int [OF name]
  have "prop_of (DOMException trace (of_integer n) (Str m)) ''code'' = Inr (of_integer n)"
    by simp
  with valid name message show ?thesis by simp
qed

text \<open>
  The claim at \<open>n = 3\<close>: the name is \<open>HierarchyRequestError\<close> and the code 3.
\<close>

theorem legacy_code_construction_witness:
  "isValidDomExceptionCode (of_integer 3) \<and>
   prop_of (DOMException None (of_integer 3) (Str ''m'')) ''name'' =
     Inr (Str ''HierarchyRequestError'') \<and>
   prop_of (DOMException None (of_integer 3) (Str ''m'')) ''message'' = Inr (Str ''m'') \<and>
   prop_of (DOMException None (of_integer 3) (Str ''m'')) ''code'' = Inr (of_integer 3)"
  using legacy_code_construction [of 3 None "''m''"]
  by (simp add: DOMExceptionNames_def DOMExceptionName_def freeze_def)

text \<open>
  Claim C2. When the first argument is not a number between 1 and 25 (a number outside
  that range, \<open>NaN\<close>, an infinity, a value that is not a number, or \<open>undefined\<close> for an
  omitted argument), the constructor takes the branch of name and message: the first
  argument itself, unconverted, becomes the \<open>message\<close>, and the \<open>name\<close> is the
  second argument when \<open>endsWithError\<close> accepts it and \<open>Error\<close> otherwise.
\<close>

theorem name_message_construction:
  assumes "\<forall>x. p = Number (Finite x) \<longrightarrow> x < 1 \<or> 25 < x"
  shows "\<not> isValidDomExceptionCode p \<and>
         prop_of (DOMException trace p s) ''message'' = Inr p \<and>
         prop_of (DOMException trace p s) ''name'' =
           Inr (if endsWithError s then s else Str ''Error'')"
proof -
  from assms have "\<not> isValidDomExceptionCode p" by (auto simp: isValid_iff)
  then show ?thesis by (simp add: prop_message_named prop_name_named)
qed

text \<open>
  The claim at \<open>(99, "x")\<close>, where the message is the number 99, and with both
  arguments omitted.
\<close>

theorem name_message_construction_witness:
  "prop_of (DOMException None (Number (Finite 99)) (Str ''x'')) ''message'' =
     Inr (Number (Finite 99)) \<and>
   prop_of (DOMException None (Number (Finite 99)) (Str ''x'')) ''name'' = Inr (Str ''Error'') \<and>
   prop_of (DOMException None Undefined Undefined) ''message'' = Inr Undefined"
  using name_message_construction [of "Number (Finite 99)" None "Str ''x''"]
    name_message_construction [of Undefined None Undefined]
  by (simp add: DOMExceptionName_Error substring_def)

text \<open>
  Claim C3 speaks of every construction whose second argument is omitted. With a legacy
  code as first argument it does not hold: \<open>new DOMException(3)\<close> is named
  \<open>HierarchyRequestError\<close> and its code is 3.
\<close>

theorem default_name_needs_name_message_mode_counterexample:
  "prop_of (DOMException None (of_integer 3) Undefined) ''name'' =
     Inr (Str ''HierarchyRequestError'') \<and>
   prop_of (DOMException None (of_integer 3) Undefined) ''name'' \<noteq> Inr (Str ''Error'') \<and>
   prop_of (DOMException None (of_integer 3) Undefined) ''code'' = Inr (of_integer 3) \<and>
   prop_of (DOMException None (of_integer 3) Undefined) ''code'' \<noteq> Inr (of_integer 0)"
proof -
  have valid: "isValidDomExceptionCode (of_integer 3)" by (simp add: isValid_of_integer)
  have name: "prop_of (DOMException None (of_integer 3) Undefined) ''name'' =
      Inr (Str ''HierarchyRequestError'')"
    by (simp add: prop_name_legacy [OF valid])
      (simp add: of_integer_def DOMExceptionNames_def DOMExceptionName_def freeze_def)
  have "indexOf DOMExceptionNames (Str ''HierarchyRequestError'') = 3"
    by (simp add: indexOf_def DOMExceptionNames_def DOMExceptionName_def freeze_def)
  with prop_code_int [OF name]
  have "prop_of (DOMException None (of_integer 3) Undefined) ''code'' = Inr (of_integer 3)"
    by simp
  with name show ?thesis by (simp add: of_integer_def)
qed

text \<open>
  Claim C3, amended. When the first argument is not a number between 1 and 25, and the
  second argument is omitted, or is a string that does not end in \<open>Error\<close>, or is not a
  string, the exception has the name \<open>Error\<close> and the code 0.
\<close>

theorem default_name:
  assumes "\<forall>x. p = Number (Finite x) \<longrightarrow> x < 1 \<or> 25 < x"
    and "\<forall>str. s = Str str \<longrightarrow> \<not> suffix ''Error'' str"
  shows "prop_of (DOMException trace p s) ''name'' = Inr (Str ''Error'') \<and>
         prop_of (DOMException trace p s) ''code'' = Inr (of_integer 0)"
proof -
  from assms(1) have invalid: "\<not> isValidDomExceptionCode p" by (auto simp: isValid_iff)
  from assms(2) have "\<not> endsWithError s"
    by (cases s) (simp_all add: endsWithError_suffix del: endsWithError.simps(1))
  with invalid have name: "prop_of (DOMException trace p s) ''name'' = Inr (Str ''Error'')"
    by (simp add: prop_name_named)
  have "indexOf DOMExceptionNames (Str ''Error'') = 0"
    by (simp add: indexOf_def DOMExceptionNames_def DOMExceptionName_def freeze_def)
  with prop_code_int [OF name] name show ?thesis by simp
qed

text \<open>
  The amended claim at \<open>("bad token")\<close> and at \<open>(99, "x")\<close>.
\<close>

theorem default_name_witness:
  "prop_of (DOMException None (Str ''bad token'') Undefined) ''name'' = Inr (Str ''Error'') \<and>
   prop_of (DOMException None (Str ''bad token'') Undefined) ''code'' = Inr (of_integer 0) \<and>
   prop_of (DOMException None (Number (Finite 99)) (Str ''x'')) ''name'' = Inr (Str ''Error'') \<and>
   prop_of (DOMException None (Number (Finite 99)) (Str ''x'')) ''code'' = Inr (of_integer 0)"
  using default_name [of "Str ''bad token''" Undefined None]
    default_name [of "Number (Finite 99)" "Str ''x''" None]
  by (simp add: suffix_def)

text \<open>
  Claim C4 wants every name to be one of the registry. The branch of name and message
  keeps any string that ends in \<open>Error\<close>: \<open>new DOMException("x", "FooError")\<close> is
  named \<open>FooError\<close>, which the registry does not hold.
\<close>

theorem name_outside_registry_counterexample:
  "prop_of (DOMException None (Str ''x'') (Str ''FooError'')) ''name'' = Inr (Str ''FooError'') \<and>
   ''FooError'' \<notin> set DOMExceptionNames"
proof -
  have "\<not> isValidDomExceptionCode (Str ''x'')" by simp
  then have "prop_of (DOMException None (Str ''x'') (Str ''FooError'')) ''name'' =
      Inr (if endsWithError (Str ''FooError'') then Str ''FooError'' else Str ''Error'')"
    by (rule prop_name_named)
  moreover have "endsWithError (Str ''FooError'')"
    by (simp add: DOMExceptionName_Error substring_def)
  moreover have "''FooError'' \<notin> set DOMExceptionNames"
    by (simp add: DOMExceptionNames_def DOMExceptionName_def freeze_def)
  ultimately show ?thesis by simp
qed

text \<open>
  Claim C4, amended. Every construction succeeds with a name and a code that never
  disagree: the code is an integer \<open>c\<close> between 0 and 25; when \<open>c\<close> is not 0 the name
  is the registry name at position \<open>c\<close>; when \<open>c\<close> is 0 the name is none of the
  registry names at the positions 1 to 25. With an integer legacy code as first argument
  the name is one of the registry; in the branch of name and message the name is a string
  that ends in \<open>Error\<close>, either \<open>Error\<close> itself or the second argument, which need not
  be in the registry.
\<close>

theorem code_derived_from_name:
  "\<exists>c v. 0 \<le> c \<and> c \<le> 25 \<and>
     prop_of (DOMException trace p s) ''code'' = Inr (of_integer c) \<and>
     prop_of (DOMException trace p s) ''name'' = Inr v \<and>
     (c \<noteq> 0 \<longrightarrow> v = Str (DOMExceptionNames ! nat c)) \<and>
     (c = 0 \<longrightarrow> (\<forall>j. 1 \<le> j \<and> j \<le> 25 \<longrightarrow> v \<noteq> Str (DOMExceptionNames ! j))) \<and>
     ((\<exists>n. p = of_integer n \<and> 1 \<le> n \<and> n \<le> 25) \<longrightarrow> v \<in> Str ` set DOMExceptionNames) \<and>
     ((\<forall>x. p = Number (Finite x) \<longrightarrow> x < 1 \<or> 25 < x) \<longrightarrow>
        (\<exists>k. v = Str k \<and> suffix ''Error'' k \<and> (k = ''Error'' \<or> s = Str k)))"
proof -
  obtain v where name: "prop_of (DOMException trace p s) ''name'' = Inr v"
    by (cases "isValidDomExceptionCode p") (simp_all add: prop_name_legacy prop_name_named)
  define c where "c = (if 1 \<le> indexOf DOMExceptionNames v \<and> indexOf DOMExceptionNames v \<le> 25
    then indexOf DOMExceptionNames v else 0)"
  have code: "prop_of (DOMException trace p s) ''code'' = Inr (of_integer c)"
    unfolding c_def by (rule prop_code_int [OF name])
  have range: "0 \<le> c" "c \<le> 25"
    unfolding c_def by (rule code_of_name(1), rule code_of_name(2))
  have pos: "c \<noteq> 0 \<longrightarrow> v = Str (DOMExceptionNames ! nat c)"
    unfolding c_def using code_of_name(3) [of v] by blast
  have zero: "c = 0 \<longrightarrow> (\<forall>j. 1 \<le> j \<and> j \<le> 25 \<longrightarrow> v \<noteq> Str (DOMExceptionNames ! j))"
    unfolding c_def using code_of_name(4) [of v] by blast
  have legacy: "(\<exists>n. p = of_integer n \<and> 1 \<le> n \<and> n \<le> 25) \<longrightarrow> v \<in> Str ` set DOMExceptionNames"
  proof
    assume "\<exists>n. p = of_integer n \<and> 1 \<le> n \<and> n \<le> 25"
    then obtain n where n: "p = of_integer n" "1 \<le> n" "n \<le> 25" by blast
    then have "isValidDomExceptionCode p" by (simp add: isValid_of_integer)
    from prop_name_legacy [OF this, of trace s] name n
    have "v = Str (DOMExceptionNames ! nat n)"
      by (simp add: array_get_of_integer length_DOMExceptionNames)
    moreover from n have "nat n < length DOMExceptionNames"
      by (simp add: length_DOMExceptionNames)
    ultimately show "v \<in> Str ` set DOMExceptionNames" by simp
  qed
  have named: "(\<forall>x. p = Number (Finite x) \<longrightarrow> x < 1 \<or> 25 < x) \<longrightarrow>
      (\<exists>k. v = Str k \<and> suffix ''Error'' k \<and> (k = ''Error'' \<or> s = Str k))"
  proof
    assume "\<forall>x. p = Number (Finite x) \<longrightarrow> x < 1 \<or> 25 < x"
    then have "\<not> isValidDomExceptionCode p" by (auto simp: isValid_iff)
    from prop_name_named [OF this, of trace s] name
    have v: "v = (if endsWithError s then s else Str ''Error'')" by simp
    show "\<exists>k. v = Str k \<and> suffix ''Error'' k \<and> (k = ''Error'' \<or> s = Str k)"
    proof (cases "endsWithError s")
      case True
      then obtain k where "s = Str k" by (cases s) simp_all
      with True v show ?thesis by (auto simp only: endsWithError_suffix if_True)
    next
      case False
      with v show ?thesis by simp
    qed
  qed
  from range code name pos zero legacy named show ?thesis by blast
qed

text \<open>
  The amended claim at \<open>(3, "m")\<close>: the code is not 0 and the name is the registry
  name at that position.
\<close>

theorem code_derived_from_name_witness:
  "\<exists>c v. prop_of (DOMException None (of_integer 3) (Str ''m'')) ''code'' = Inr (of_integer c) \<and>
     prop_of (DOMException None (of_integer 3) (Str ''m'')) ''name'' = Inr v \<and>
     1 \<le> c \<and> c \<le> 25 \<and> v = Str (DOMExceptionNames ! nat c)"
proof -
  obtain c v where cv: "0 \<le> c" "c \<le> 25"
    "prop_of (DOMException None (of_integer 3) (Str ''m'')) ''code'' = Inr (of_integer c)"
    "prop_of (DOMException None (of_integer 3) (Str ''m'')) ''name'' = Inr v"
    "c \<noteq> 0 \<longrightarrow> v = Str (DOMExceptionNames ! nat c)"
    "c = 0 \<longrightarrow> (\<forall>j. 1 \<le> j \<and> j \<le> 25 \<longrightarrow> v \<noteq> Str (DOMExceptionNames ! j))"
    using code_derived_from_name [of None "of_integer 3" "Str ''m''"] by blast
  have "isValidDomExceptionCode (of_integer 3)" by (simp add: isValid_of_integer)
  from prop_name_legacy [OF this, of None "Str ''m''"] cv(4)
  have "v = Str (DOMExceptionNames ! 3)"
    by (simp add: of_integer_def length_DOMExceptionNames)
  have "c \<noteq> 0"
  proof
    assume "c = 0"
    with cv(6) have "v \<noteq> Str (DOMExceptionNames ! 3)" by simp
    with \<open>v = Str (DOMExceptionNames ! 3)\<close> show False by simp
  qed
  with cv show ?thesis by auto
qed

text \<open>
  Claim C5 gives a number out of range as an input that ends with the generic kind
  \<open>Error\<close>. It is the second argument that decides:
  \<open>new DOMException(99, "SyntaxError")\<close> is named \<open>SyntaxError\<close>.
\<close>

theorem out_of_range_number_keeps_given_name_counterexample:
  "\<not> isValidDomExceptionCode (Number (Finite 99)) \<and>
   prop_of (DOMException None (Number (Finite 99)) (Str ''SyntaxError'')) ''name'' =
     Inr (Str ''SyntaxError'') \<and>
   prop_of (DOMException None (Number (Finite 99)) (Str ''SyntaxError'')) ''name'' \<noteq>
     Inr (Str ''Error'')"
proof -
  have invalid: "\<not> isValidDomExceptionCode (Number (Finite 99))" by simp
  have "endsWithError (Str ''SyntaxError'')"
    by (simp add: DOMExceptionName_Error substring_def)
  with prop_name_named [OF invalid, of None "Str ''SyntaxError''"] invalid
  show ?thesis by simp
qed

text \<open>
  Claim C5, amended. The constructor never throws, whatever its two arguments are: none
  of its assignments meets a read-only property. When the first argument is not a number
  between 1 and 25 and the second is not a string that ends in \<open>Error\<close>, the exception
  has the generic name \<open>Error\<close>.
\<close>

theorem construction_never_fails:
  "(\<exists>e. DOMException trace p s = Inr e) \<and>
   ((\<forall>x. p = Number (Finite x) \<longrightarrow> x < 1 \<or> 25 < x) \<and>
    (\<forall>str. s = Str str \<longrightarrow> \<not> suffix ''Error'' str) \<longrightarrow>
      prop_of (DOMException trace p s) ''name'' = Inr (Str ''Error''))"
proof
  show "\<exists>e. DOMException trace p s = Inr e"
    using DOMException_total [of trace p s] by blast
  show "(\<forall>x. p = Number (Finite x) \<longrightarrow> x < 1 \<or> 25 < x) \<and>
      (\<forall>str. s = Str str \<longrightarrow> \<not> suffix ''Error'' str) \<longrightarrow>
      prop_of (DOMException trace p s) ''name'' = Inr (Str ''Error'')"
  proof
    assume a: "(\<forall>x. p = Number (Finite x) \<longrightarrow> x < 1 \<or> 25 < x) \<and>
      (\<forall>str. s = Str str \<longrightarrow> \<not> suffix ''Error'' str)"
    then have invalid: "\<not> isValidDomExceptionCode p" by (auto simp: isValid_iff)
    from a have "\<not> endsWithError s"
      by (cases s) (simp_all add: endsWithError_suffix del: endsWithError.simps(1))
    with invalid show "prop_of (DOMException trace p s) ''name'' = Inr (Str ''Error'')"
      by (simp add: prop_name_named)
  qed
qed

text \<open>
  The amended claim at \<open>(99, "x")\<close>.
\<close>

theorem construction_never_fails_witness:
  "(\<exists>e. DOMException None (Number (Finite 99)) (Str ''x'') = Inr e) \<and>
   prop_of (DOMException None (Number (Finite 99)) (Str ''x'')) ''name'' = Inr (Str ''Error'')"
  using construction_never_fails [of None "Number (Finite 99)" "Str ''x''"]
  by (simp add: suffix_def)

text \<open>
  Claim C6. The 25 constants of \<open>ExceptionCode\<close>, which are also the 25 static
  properties assigned to \<open>DOMException\<close>, stand for the registry names at the positions
  1 to 25, in this order, and the value of each constant is the position of its name in
  the registry: it is what \<open>indexOf\<close> finds and what the \<open>code\<close> of an exception of
  that name reads.
\<close>

theorem legacy_constants_match_registry:
  "map fst corresponding_kind = map fst ExceptionCode \<and>
   map snd corresponding_kind = take 25 (drop 1 DOMExceptionNames) \<and>
   map (\<lambda>(c, k). Inr (ExceptionCode_get c)) corresponding_kind =
     map (\<lambda>(c, k). prop_of (DOMException None (Str []) (Str k)) ''code'') corresponding_kind \<and>
   map (\<lambda>(c, k). ExceptionCode_get c) corresponding_kind =
     map (\<lambda>(c, k). of_integer (indexOf DOMExceptionNames (Str k))) corresponding_kind \<and>
   DOMException_statics = map (\<lambda>(c, n). (c, of_integer n)) ExceptionCode"
proof -
  have a: "map fst corresponding_kind = map fst ExceptionCode"
    by (simp add: corresponding_kind_def ExceptionCode_def)
  have b: "map snd corresponding_kind = take 25 (drop 1 DOMExceptionNames)"
    by (simp add: corresponding_kind_def DOMExceptionNames_def DOMExceptionName_def freeze_def)
  have vals: "map (\<lambda>(c, k). ExceptionCode_get c) corresponding_kind = map of_integer [1..25]"
    by (simp add: corresponding_kind_def ExceptionCode_get_def ExceptionCode_def upto.simps)
  have d: "map (\<lambda>(c, k). of_integer (indexOf DOMExceptionNames (Str k))) corresponding_kind =
      map of_integer [1..25]"
    by (simp add: corresponding_kind_def indexOf_def DOMExceptionNames_def DOMExceptionName_def freeze_def
        upto.simps)
  have e: "DOMException_statics = map (\<lambda>(c, n). (c, of_integer n)) ExceptionCode"
    by (simp add: DOMException_statics_def ExceptionCode_get_def ExceptionCode_def)
  have code: "prop_of (DOMException None (Str []) (Str k)) ''code'' =
      Inr (of_integer (indexOf DOMExceptionNames (Str k)))"
    if "(c, k) \<in> set corresponding_kind" for c k
  proof -
    from that have "k \<in> set (map snd corresponding_kind)" by force
    with b have k: "k \<in> set (take 25 (drop 1 DOMExceptionNames))" by simp
    then have "k \<in> set DOMExceptionNames" by (auto dest!: in_set_takeD in_set_dropD)
    then have "endsWithError (Str k)"
      by (simp only: endsWithError_suffix registry_names_end_with_Error)
    then have name: "prop_of (DOMException None (Str []) (Str k)) ''name'' = Inr (Str k)"
      by (simp add: prop_name_named)
    from k obtain i where "i < 25" "k = DOMExceptionNames ! (Suc i)"
      by (auto simp: in_set_conv_nth length_DOMExceptionNames)
    then have "indexOf DOMExceptionNames (Str k) = int (Suc i)" 
      by (simp add: indexOf_nth distinct_DOMExceptionNames length_DOMExceptionNames)
    with prop_code_int [OF name] \<open>i < 25\<close> show ?thesis by simp
  qed
  have c: "map (\<lambda>(c, k). Inr (ExceptionCode_get c)) corresponding_kind =
     map (\<lambda>(c, k). prop_of (DOMException None (Str []) (Str k)) ''code'') corresponding_kind"
  proof -
    have "map (\<lambda>(c, k). prop_of (DOMException None (Str []) (Str k)) ''code'') corresponding_kind =
        map (\<lambda>(c, k). Inr (of_integer (indexOf DOMExceptionNames (Str k)))) corresponding_kind"
      by (rule map_cong) (auto simp: code)
    also have "\<dots> = map Inr (map (\<lambda>(c, k). of_integer (indexOf DOMExceptionNames (Str k))) corresponding_kind)"
      by (simp add: case_prod_unfold)
    also have "\<dots> = map Inr (map (\<lambda>(c, k). ExceptionCode_get c) corresponding_kind)"
      by (simp only: d vals)
    also have "\<dots> = map (\<lambda>(c, k). Inr (ExceptionCode_get c)) corresponding_kind"
      by (simp add: case_prod_unfold)
    finally show ?thesis by simp
  qed
  from a b c d e vals show ?thesis by simp
qed

text \<open>
  Claim C7 has the message converted to a string. The constructor stores
  \<open>nameOrMessage || ''\<close> as it is: \<open>new DOMException(3, 42)\<close> has the number 42 as its
  message, not a string.
\<close>

theorem message_is_not_coerced_counterexample:
  "isValidDomExceptionCode (of_integer 3) \<and>
   prop_of (DOMException None (of_integer 3) (Number (Finite 42))) ''message'' =
     Inr (Number (Finite 42)) \<and>
   typeof (Number (Finite 42)) \<noteq> ''string''"
proof -
  have valid: "isValidDomExceptionCode (of_integer 3)" by (simp add: isValid_of_integer)
  from prop_message_legacy [OF valid, of None "Number (Finite 42)"] valid
  show ?thesis by (simp add: js_or_def)
qed

text \<open>
  Claim C7, amended. In the branch of the legacy codes (the first argument is a number
  between 1 and 25) the message is the second argument itself, unconverted, unless that
  is a falsy value (\<open>undefined\<close> when omitted, \<open>null\<close>, \<open>false\<close>, \<open>0\<close>, \<open>NaN\<close>,
  \<open>0n\<close> or the empty string), where the message is the empty string. So every string
  is stored as it is.
\<close>

theorem legacy_message:
  assumes "p = Number (Finite x)" and "1 \<le> x" and "x \<le> 25"
  shows "prop_of (DOMException trace p s) ''message'' =
           Inr (if s \<in> {Undefined, Null, Boolean False, Number (Finite 0), Number NaN,
                         BigInt 0, Str []}
                then Str [] else s) \<and>
         (\<forall>m. s = Str m \<longrightarrow> prop_of (DOMException trace p s) ''message'' = Inr (Str m))"
proof -
  from assms have "isValidDomExceptionCode p" by simp
  then have "prop_of (DOMException trace p s) ''message'' = Inr (js_or s (Str []))"
    by (rule prop_message_legacy)
  then show ?thesis
    unfolding js_or_def ToBoolean_iff by (auto split: if_splits)
qed

text \<open>
  The amended claim at \<open>(3)\<close>, at \<open>(3, "m")\<close> and at \<open>3\<close> with an object.
\<close>

theorem legacy_message_witness:
  "prop_of (DOMException None (Number (Finite 3)) Undefined) ''message'' = Inr (Str []) \<and>
   prop_of (DOMException None (Number (Finite 3)) (Str ''m'')) ''message'' = Inr (Str ''m'') \<and>
   prop_of (DOMException None (Number (Finite 3)) (Object 0)) ''message'' = Inr (Object 0)"
  using legacy_message [of "Number (Finite 3)" 3 None Undefined]
    legacy_message [of "Number (Finite 3)" 3 None "Str ''m''"]
    legacy_message [of "Number (Finite 3)" 3 None "Object 0"]
  by simp

text \<open>
  Claim C8 counts 34 names. The registry has 37.
\<close>

theorem registry_length_counterexample:
  "length DOMExceptionNames = 37 \<and> length DOMExceptionNames \<noteq> 34"
  by (simp add: length_DOMExceptionNames)

text \<open>
  Claim C8, amended. The registry is a sequence of 37 distinct names that starts with
  \<open>Error\<close> and ends with \<open>OptOutError\<close>. Its order gives the legacy codes: an
  exception named by the entry at a position from 1 to 25 reads that position as its
  code, and one named by the entry at position 0 or beyond 25 reads 0.
\<close>

theorem registry_order:
  "length DOMExceptionNames = 37 \<and> distinct DOMExceptionNames \<and>
   hd DOMExceptionNames = ''Error'' \<and> last DOMExceptionNames = ''OptOutError'' \<and>
   (\<forall>i<37. prop_of (DOMException trace (Str m) (Str (DOMExceptionNames ! i))) ''code'' =
      Inr (of_integer (if 1 \<le> i \<and> i \<le> 25 then int i else 0)))"
proof -
  have ends: "hd DOMExceptionNames = ''Error''" "last DOMExceptionNames = ''OptOutError''"
    by (simp_all add: DOMExceptionNames_def DOMExceptionName_def freeze_def)
  have "prop_of (DOMException trace (Str m) (Str (DOMExceptionNames ! i))) ''code'' =
      Inr (of_integer (if 1 \<le> i \<and> i \<le> 25 then int i else 0))" if "i < 37" for i
  proof -
    from that have "DOMExceptionNames ! i \<in> set DOMExceptionNames"
      by (simp add: length_DOMExceptionNames)
    then have "endsWithError (Str (DOMExceptionNames ! i))"
      by (simp only: endsWithError_suffix registry_names_end_with_Error)
    moreover have "\<not> isValidDomExceptionCode (Str m)" by simp
    ultimately have name:
      "prop_of (DOMException trace (Str m) (Str (DOMExceptionNames ! i))) ''name'' =
        Inr (Str (DOMExceptionNames ! i))"
      by (simp add: prop_name_named)
    from that have "indexOf DOMExceptionNames (Str (DOMExceptionNames ! i)) = int i"
      by (simp add: indexOf_nth distinct_DOMExceptionNames length_DOMExceptionNames)
    with prop_code_int [OF name] show ?thesis by simp
  qed
  with ends length_DOMExceptionNames distinct_DOMExceptionNames show ?thesis by blast
qed

text \<open>
  The amended claim at the positions 12, 36 and 0.
\<close>

theorem registry_order_witness:
  "prop_of (DOMException None (Str ''m'') (Str ''SyntaxError'')) ''code'' = Inr (of_integer 12) \<and>
   prop_of (DOMException None (Str ''m'') (Str ''OptOutError'')) ''code'' = Inr (of_integer 0) \<and>
   prop_of (DOMException None (Str ''m'') (Str ''Error'')) ''code'' = Inr (of_integer 0)"
proof -
  have n: "DOMExceptionNames ! 12 = ''SyntaxError''" "DOMExceptionNames ! 36 = ''OptOutError''"
    "DOMExceptionNames ! 0 = ''Error''"
    by (simp_all add: DOMExceptionNames_def DOMExceptionName_def freeze_def)
  have all: "\<forall>i<37. prop_of (DOMException None (Str ''m'') (Str (DOMExceptionNames ! i))) ''code'' =
      Inr (of_integer (if 1 \<le> i \<and> i \<le> 25 then int i else 0))"
    using registry_order [of None "''m''"] by blast
  from all [rule_format, of 12] all [rule_format, of 36] all [rule_format, of 0]
  show ?thesis by (simp add: n)
qed

text \<open>
  Claim C9. \<open>new ParseError(message, locator)\<close> never throws and gives an object that
  holds exactly that message and that locator (and the trace, on a host that captures
  one). It has no \<open>code\<close>: the read gives \<open>undefined\<close>, and no property of it is the
  getter that consults the registry. It is an instance of \<open>ParseError\<close> and not of
  \<open>DOMException\<close>, while every value the constructor \<open>DOMException\<close> gives is an
  instance of \<open>DOMException\<close> and not of \<open>ParseError\<close>.
\<close>

theorem parse_error_is_distinct:
  "ParseError trace m l =
     Inr (captureStackTrace trace
       \<lparr>proto = ParseError_prototype, own = [''message'' \<mapsto> m, ''locator'' \<mapsto> l]\<rparr>) \<and>
   prop_of (ParseError trace m l) ''message'' = Inr m \<and>
   prop_of (ParseError trace m l) ''locator'' = Inr l \<and>
   prop_of (ParseError trace m l) ''code'' = Inr Undefined \<and>
   (\<exists>pe. ParseError trace m l = Inr pe \<and> own pe ''code'' = None \<and>
      (\<forall>k. GetProperty pe k \<noteq> Some (Accessor Code_getter)) \<and>
      instanceof pe ParseError_prototype \<and> \<not> instanceof pe DOMException_prototype) \<and>
   (\<exists>e. DOMException trace' p s = Inr e \<and>
      instanceof e DOMException_prototype \<and> \<not> instanceof e ParseError_prototype)"
proof -
  define pe where "pe = captureStackTrace trace
    \<lparr>proto = ParseError_prototype, own = [''message'' \<mapsto> m, ''locator'' \<mapsto> l]\<rparr>"
  have result: "ParseError trace m l = Inr pe"
    unfolding pe_def by (rule ParseError_result)
  have proto: "proto pe = ParseError_prototype"
    by (simp add: pe_def proto_captureStackTrace)
  have own: "own pe ''message'' = Some m" "own pe ''locator'' = Some l" "own pe ''code'' = None"
    by (simp_all add: pe_def own_captureStackTrace)
  have fields: "prop_of (ParseError trace m l) ''message'' = Inr m"
    "prop_of (ParseError trace m l) ''locator'' = Inr l"
    "prop_of (ParseError trace m l) ''code'' = Inr Undefined"
    by (simp_all add: result prop_of_def and_then_def Get_own own Get_code_ParseError proto)
  have no_getter: "\<forall>k. GetProperty pe k \<noteq> Some (Accessor Code_getter)"
    by (simp add: GetProperty_ParseError_no_getter proto)
  have types: "instanceof pe ParseError_prototype" "\<not> instanceof pe DOMException_prototype"
    by (simp_all add: instanceof_def proto chain_ParseError)
  obtain e where e: "DOMException trace' p s = Inr e" "proto e = DOMException_prototype"
    using DOMException_total [of trace' p s] by blast
  then have "instanceof e DOMException_prototype" "\<not> instanceof e ParseError_prototype"
    by (simp_all add: instanceof_def chain_DOMException)
  with e result fields own no_getter types show ?thesis
    unfolding pe_def [symmetric] by blast
qed

text \<open>
  Claim C10. In the branch of name and message, a second argument that is a string ending
  in \<open>Error\<close> and is not a name of the registry is kept as the name, and the code of
  the exception reads 0.
\<close>

theorem unregistered_name_is_kept:
  assumes "\<forall>x. p = Number (Finite x) \<longrightarrow> x < 1 \<or> 25 < x"
    and "suffix ''Error'' k" and "k \<notin> set DOMExceptionNames"
  shows "prop_of (DOMException trace p (Str k)) ''name'' = Inr (Str k) \<and>
         prop_of (DOMException trace p (Str k)) ''code'' = Inr (of_integer 0)"
proof -
  from assms(1) have invalid: "\<not> isValidDomExceptionCode p" by (auto simp: isValid_iff)
  from assms(2) have "endsWithError (Str k)" by (simp only: endsWithError_suffix)
  with invalid have name: "prop_of (DOMException trace p (Str k)) ''name'' = Inr (Str k)"
    by (simp add: prop_name_named)
  from assms(3) have "Str k \<notin> Str ` set DOMExceptionNames" by auto
  then have "indexOf DOMExceptionNames (Str k) = - 1" by (simp add: indexOf_absent)
  with prop_code_int [OF name] name show ?thesis by simp
qed

text \<open>
  The claim at \<open>("m", "FooError")\<close>.
\<close>

theorem unregistered_name_is_kept_witness:
  "suffix ''Error'' ''FooError'' \<and> ''FooError'' \<notin> set DOMExceptionNames \<and>
   prop_of (DOMException None (Str ''m'') (Str ''FooError'')) ''name'' = Inr (Str ''FooError'') \<and>
   prop_of (DOMException None (Str ''m'') (Str ''FooError'')) ''code'' = Inr (of_integer 0)"
proof -
  have a: "\<forall>x. Str ''m'' = Number (Finite x) \<longrightarrow> x < 1 \<or> 25 < x" by simp
  have b: "suffix ''Error'' ''FooError''" by (simp add: suffix_def)
  have c: "''FooError'' \<notin> set DOMExceptionNames"
    by (simp add: DOMExceptionNames_def DOMExceptionName_def freeze_def)
  from unregistered_name_is_kept [OF a b c, of None] b c show ?thesis by simp
qed

end
